theory Spec2Isabelle
  imports Complex_Main "HOL-Library.AList" "HOL-Library.Sublist"
begin

section \<open>Metadata Image Cleaner: the App component\<close>

text \<open>
  The program is one React component, \<^verbatim>\<open>App\<close>. Its state is a set of
  \<^verbatim>\<open>useState\<close> cells; its handlers are closures over the values those cells had in
  the render that created them, and they act only by calling setters (each with a value
  computed from the closure, never with an updater function) and platform functions.

  The embedding follows that shape. A handler is a function from the state of the render
  that created its closure to the list of effects it issues, in program order;
  \<open>apply_action\<close> gives the meaning of one effect on the state, and \<open>run\<close> that of a
  list of them. What the platform answers (the parser's result, the decoded image, the
  encoded blob, number and date formatting) is a parameter of the model. Callbacks handed
  to \<^verbatim>\<open>setTimeout\<close> are recorded as an effect and are transitions of their own.

  Two things are told apart.
  \<^item> The chain of one operation. \<open>handleImageFile\<close> and \<open>handleCleanMetadata\<close> list the
    effects of the call together with those of the callbacks the platform runs for it
    later (the continuation after \<^verbatim>\<open>await\<close>, \<^verbatim>\<open>reader.onload\<close>,
    \<^verbatim>\<open>img.onload\<close>, the \<^verbatim>\<open>toBlob\<close> callback), in the order in which they run.
  \<^item> The renders. The setter calls of one callback are applied together and followed by
    one render. The handlers passed to elements (\<^verbatim>\<open>onClick\<close>, \<^verbatim>\<open>onChange\<close>,
    \<^verbatim>\<open>onDrop\<close>) are those of the latest render. The \<^verbatim>\<open>paste\<close> and
    \<^verbatim>\<open>keydown\<close> listeners are registered by an effect with the dependency list
    \<^verbatim>\<open>[originalImage, processedImage, history]\<close>, so they are those of the latest
    render in which one of these three changed. The record \<open>World\<close> keeps both states,
    and \<open>react_event\<close>, \<open>listener_event\<close> and \<open>commit\<close> are the transitions.

  \<open>exec h s\<close> runs a handler whose closure is that of the render with state \<open>s\<close> on
  that same state: it is what \<open>react_event\<close> does, and what \<open>listener_event\<close> does when
  the listeners are those of the latest render.
\<close>

subsection \<open>Data\<close>

text \<open>
  JavaScript values as far as the component looks at them: it tests them for truthiness
  and stores them. Finite numbers are rationals; \<open>JNaN\<close> is the one number, besides
  zero, that is falsy.
\<close>

datatype jsvalue =
    JUndefined
  | JNull
  | JBool bool
  | JNum rat
  | JNaN
  | JStr string
  | JObj "(string \<times> jsvalue) list"

fun truthy :: "jsvalue \<Rightarrow> bool" where
  "truthy JUndefined = False"
| "truthy JNull = False"
| "truthy (JBool b) = b"
| "truthy (JNum r) = (r \<noteq> 0)"
| "truthy JNaN = False"
| "truthy (JStr s) = (s \<noteq> [])"
| "truthy (JObj kvs) = True"

text \<open>
  \<^verbatim>\<open>interface ExifData { [key: string]: any }\<close>: an object with string keys. An
  object keeps its keys in insertion order, and assigning to an existing key keeps the
  key's place; that is \<open>AList.update\<close> on an association list.
\<close>

type_synonym ExifData = "(string \<times> jsvalue) list"

text \<open>
  \<^verbatim>\<open>string | null\<close> is \<open>string option\<close>. In a condition, \<^verbatim>\<open>null\<close> and the
  empty string are both falsy.
\<close>

fun truthy_str :: "string option \<Rightarrow> bool" where
  "truthy_str None = False"
| "truthy_str (Some u) = (u \<noteq> [])"

text \<open>
  \<^verbatim>\<open>interface HistoryState\<close>, and the component's state. The four cells
  \<^verbatim>\<open>originalImage\<close>, \<^verbatim>\<open>originalFileName\<close>, \<^verbatim>\<open>metadata\<close>,
  \<^verbatim>\<open>processedImage\<close> have the names and types of the four fields of
  \<^verbatim>\<open>HistoryState\<close>, so the state record extends the snapshot record by the other
  cells. \<^verbatim>\<open>fileInputRef\<close> is a DOM reference and holds no state of the component.
\<close>

record HistoryState =
  originalImage :: "string option"
  originalFileName :: string
  metadata :: "ExifData option"
  processedImage :: "string option"

record AppState = HistoryState +
  isDragging :: bool
  isProcessing :: bool
  history :: "HistoryState list"
  futureHistory :: "HistoryState list"
  notification :: "string option"
  showJsonModal :: bool

text \<open>A \<^verbatim>\<open>File\<close>: the four properties the component reads.\<close>

record File =
  file_name :: string
  file_size :: nat
  file_type :: string
  file_lastModified :: int

type_synonym blob = string

text \<open>Callbacks given to \<^verbatim>\<open>setTimeout\<close>.\<close>

datatype timer_callback =
    ClearNotification
  | CallHandleImageFile File

text \<open>
  The effects a handler issues: the setters of the \<^verbatim>\<open>useState\<close> cells, and the
  platform calls. \<open>ImageSrc u\<close> is \<^verbatim>\<open>new Image()\<close> with \<^verbatim>\<open>img.src = u\<close>;
  \<open>ToBlob t q\<close> is \<^verbatim>\<open>canvas.toBlob(callback, t, q)\<close>; \<open>LinkClick href download\<close> is
  the anchor element made, given these two attributes, and clicked.
\<close>

datatype action =
    SetIsDragging bool
  | SetIsProcessing bool
  | SetProcessedImage "string option"
  | SetOriginalImage "string option"
  | SetOriginalFileName string
  | SetMetadata "ExifData option"
  | SetHistory "HistoryState list"
  | SetFutureHistory "HistoryState list"
  | SetNotification "string option"
  | SetShowJsonModal bool
  | SetTimeout timer_callback nat
  | PreventDefault
  | ClearFileInput
  | ReadAsDataURL File
  | ImageSrc string
  | CreateCanvas nat nat
  | DrawImage string
  | ToBlob string rat
  | CreateObjectURL blob
  | LinkClick string string

fun apply_action :: "action \<Rightarrow> AppState \<Rightarrow> AppState" where
  "apply_action (SetIsDragging b) s = s\<lparr>isDragging := b\<rparr>"
| "apply_action (SetIsProcessing b) s = s\<lparr>isProcessing := b\<rparr>"
| "apply_action (SetProcessedImage u) s = s\<lparr>processedImage := u\<rparr>"
| "apply_action (SetOriginalImage u) s = s\<lparr>originalImage := u\<rparr>"
| "apply_action (SetOriginalFileName n) s = s\<lparr>originalFileName := n\<rparr>"
| "apply_action (SetMetadata m) s = s\<lparr>metadata := m\<rparr>"
| "apply_action (SetHistory h) s = s\<lparr>history := h\<rparr>"
| "apply_action (SetFutureHistory h) s = s\<lparr>futureHistory := h\<rparr>"
| "apply_action (SetNotification n) s = s\<lparr>notification := n\<rparr>"
| "apply_action (SetShowJsonModal b) s = s\<lparr>showJsonModal := b\<rparr>"
| "apply_action (SetTimeout cb ms) s = s"
| "apply_action PreventDefault s = s"
| "apply_action ClearFileInput s = s"
| "apply_action (ReadAsDataURL f) s = s"
| "apply_action (ImageSrc u) s = s"
| "apply_action (CreateCanvas w h) s = s"
| "apply_action (DrawImage u) s = s"
| "apply_action (ToBlob t q) s = s"
| "apply_action (CreateObjectURL b) s = s"
| "apply_action (LinkClick href download) s = s"

definition run :: "action list \<Rightarrow> AppState \<Rightarrow> AppState" where
  "run as s = fold apply_action as s"

definition exec :: "(AppState \<Rightarrow> action list) \<Rightarrow> AppState \<Rightarrow> AppState" where
  "exec handler s = run (handler s) s"

subsection \<open>Undo/redo history\<close>

text \<open>
  The object literal
  \<^verbatim>\<open>{ originalImage, originalFileName, metadata, processedImage }\<close>
  that \<^verbatim>\<open>saveToHistory\<close>, \<^verbatim>\<open>handleUndo\<close> and \<^verbatim>\<open>handleRedo\<close> build from the
  closure.
\<close>

definition snapshot :: "AppState \<Rightarrow> HistoryState" where
  "snapshot s =
     \<lparr>originalImage = originalImage s, originalFileName = originalFileName s,
      metadata = metadata s, processedImage = processedImage s\<rparr>"

text \<open>
  \<^verbatim>\<open>Array.prototype.pop\<close> and \<^verbatim>\<open>Array.prototype.shift\<close> on a copy of the
  array: the removed element (\<^verbatim>\<open>undefined\<close> on an empty array) and what is left.
\<close>

definition pop :: "'a list \<Rightarrow> 'a option \<times> 'a list" where
  "pop xs = (if xs = [] then (None, []) else (Some (last xs), butlast xs))"

definition shift :: "'a list \<Rightarrow> 'a option \<times> 'a list" where
  "shift xs = (case xs of [] \<Rightarrow> (None, []) | x # rest \<Rightarrow> (Some x, rest))"

definition saveToHistory :: "AppState \<Rightarrow> action list" where
  "saveToHistory s =
     [SetHistory (history s @ [snapshot s]),
      SetFutureHistory []]"

definition handleUndo :: "AppState \<Rightarrow> action list" where
  "handleUndo s =
     (if length (history s) = 0 then []
      else
        let (previousState, newHistory) = pop (history s) in
        SetFutureHistory (snapshot s # futureHistory s) #
        (case previousState of
           None \<Rightarrow> []
         | Some p \<Rightarrow>
             [SetOriginalImage (originalImage p),
              SetOriginalFileName (originalFileName p),
              SetMetadata (metadata p),
              SetProcessedImage (processedImage p),
              SetHistory newHistory]))"

definition handleRedo :: "AppState \<Rightarrow> action list" where
  "handleRedo s =
     (if length (futureHistory s) = 0 then []
      else
        let (nextState, newFutureHistory) = shift (futureHistory s) in
        SetHistory (history s @ [snapshot s]) #
        (case nextState of
           None \<Rightarrow> []
         | Some n \<Rightarrow>
             [SetOriginalImage (originalImage n),
              SetOriginalFileName (originalFileName n),
              SetMetadata (metadata n),
              SetProcessedImage (processedImage n),
              SetFutureHistory newFutureHistory]))"

text \<open>
  \<^verbatim>\<open>handleReset\<close>. \<open>ClearFileInput\<close> stands for the last statement, which empties the
  file input when it is mounted; it touches no cell of the state.
\<close>

definition handleReset :: "AppState \<Rightarrow> action list" where
  "handleReset s =
     [SetProcessedImage None,
      SetOriginalImage None,
      SetOriginalFileName [],
      SetMetadata None,
      ClearFileInput]"

definition showNotification :: "string \<Rightarrow> action list" where
  "showNotification message =
     [SetNotification (Some message),
      SetTimeout ClearNotification 3000]"

subsection \<open>The platform\<close>

text \<open>
  What the component asks of the browser and of the \<^verbatim>\<open>exifr\<close> library, as
  parameters:
  \<^item> \<open>toFixed2_KB n\<close> is \<^verbatim>\<open>(n / 1024).toFixed(2)\<close> and \<open>toLocaleString t\<close> is
    \<^verbatim>\<open>new Date(t).toLocaleString()\<close>;
  \<^item> \<open>exifr_parse\<close> and \<open>exifr_thumbnail\<close> give what the awaited promise settles to:
    \<open>Inl e\<close> when it rejects (or the call throws) with a value whose \<^verbatim>\<open>String(error)\<close>
    is \<open>e\<close>, \<open>Inr None\<close> for \<^verbatim>\<open>undefined\<close>, \<open>Inr (Some v)\<close> for the parsed
    segments, respectively for a thumbnail buffer of \<open>v\<close> bytes;
  \<^item> \<open>readAsDataURL\<close> is the data URL passed to \<^verbatim>\<open>reader.onload\<close>, \<open>None\<close> when the
    load event never fires;
  \<^item> \<open>loadImage\<close> decodes \<^verbatim>\<open>img.src\<close>: \<open>Some (width, height)\<close> when
    \<^verbatim>\<open>img.onload\<close> fires, \<open>None\<close> when \<^verbatim>\<open>img.onerror\<close> does;
  \<^item> \<open>getContext2d\<close> says whether \<^verbatim>\<open>canvas.getContext('2d')\<close> is non-null;
  \<^item> \<open>toBlob src type quality\<close> is the blob handed to the \<^verbatim>\<open>toBlob\<close> callback for
    the canvas on which the image \<open>src\<close> was drawn, \<open>None\<close> for \<^verbatim>\<open>null\<close>;
  \<^item> \<open>createObjectURL\<close> is \<^verbatim>\<open>URL.createObjectURL\<close>.
\<close>

record env =
  toFixed2_KB :: "nat \<Rightarrow> string"
  toLocaleString :: "int \<Rightarrow> string"
  exifr_parse :: "File \<Rightarrow> string + (string \<times> jsvalue) list option"
  exifr_thumbnail :: "File \<Rightarrow> string + nat option"
  readAsDataURL :: "File \<Rightarrow> string option"
  loadImage :: "string \<Rightarrow> (nat \<times> nat) option"
  getContext2d :: bool
  toBlob :: "string \<Rightarrow> string \<Rightarrow> rat \<Rightarrow> blob option"
  createObjectURL :: "blob \<Rightarrow> string"

text \<open>Decimal digits of a non-negative integer, for the template literal.\<close>

fun string_of_nat :: "nat \<Rightarrow> string" where
  "string_of_nat n =
     (if n < 10 then [char_of (48 + n)]
      else string_of_nat (n div 10) @ [char_of (48 + n mod 10)])"

subsection \<open>Metadata extraction\<close>

text \<open>Property access \<^verbatim>\<open>obj.key\<close>: \<^verbatim>\<open>undefined\<close> when the key is absent.\<close>

definition getProp :: "(string \<times> jsvalue) list \<Rightarrow> string \<Rightarrow> jsvalue" where
  "getProp obj k = (case map_of obj k of None \<Rightarrow> JUndefined | Some v \<Rightarrow> v)"

text \<open>\<^verbatim>\<open>if (allMetadata.k) metadata[label] = allMetadata.k;\<close>\<close>

definition copySegment :: "(string \<times> jsvalue) list \<Rightarrow> string \<times> string \<Rightarrow> ExifData \<Rightarrow> ExifData" where
  "copySegment allMetadata kl md =
     (if truthy (getProp allMetadata (fst kl))
      then AList.update (snd kl) (getProp allMetadata (fst kl)) md
      else md)"

definition segments :: "(string \<times> string) list" where
  "segments =
     [(''ifd0'', ''IFD0''),
      (''ifd1'', ''IFD1''),
      (''exif'', ''EXIF''),
      (''gps'', ''GPS''),
      (''iptc'', ''IPTC''),
      (''icc'', ''ICC Profile''),
      (''jfif'', ''JFIF''),
      (''ihdr'', ''PNG IHDR''),
      (''xmp'', ''XMP''),
      (''tiff'', ''TIFF''),
      (''interop'', ''Interoperability''),
      (''makerNote'', ''Maker Note'')]"

definition fileInfo :: "env \<Rightarrow> File \<Rightarrow> jsvalue" where
  "fileInfo E file =
     JObj [(''File Name'', JStr (file_name file)),
           (''File Size'', JStr (toFixed2_KB E (file_size file) @ '' KB'')),
           (''File Type'', JStr (file_type file)),
           (''Last Modified'', JStr (toLocaleString E (file_lastModified file)))]"

text \<open>
  The body of the \<^verbatim>\<open>try\<close> block, run on the object built so far: the object as the
  block leaves it, and the thrown value (as its \<^verbatim>\<open>String\<close>) when the block is left
  by an exception.
\<close>

definition tryBlock :: "env \<Rightarrow> File \<Rightarrow> ExifData \<Rightarrow> ExifData \<times> string option" where
  "tryBlock E file md =
     (case exifr_parse E file of
        Inl error \<Rightarrow> (md, Some error)
      | Inr allMetadata \<Rightarrow>
          let md1 = (case allMetadata of
                       None \<Rightarrow> md
                     | Some all \<Rightarrow> fold (copySegment all) segments md)
          in (case exifr_thumbnail E file of
                Inl error \<Rightarrow> (md1, Some error)
              | Inr None \<Rightarrow> (md1, None)
              | Inr (Some byteLength) \<Rightarrow>
                  (AList.update ''Embedded Thumbnail''
                     (JObj [(''Has Thumbnail'', JBool True),
                            (''Size'', JStr (string_of_nat byteLength @ '' bytes''))]) md1,
                   None)))"

text \<open>
  \<^verbatim>\<open>extractMetadata\<close>: \<open>Inr\<close> the object it returns, \<open>Inl\<close> an exception that
  leaves the function.
\<close>

definition extractMetadata :: "env \<Rightarrow> File \<Rightarrow> string + ExifData" where
  "extractMetadata E file =
     (let md = [(''File Info'', fileInfo E file)] in
      case tryBlock E file md of
        (md', None) \<Rightarrow> Inr md'
      | (md', Some error) \<Rightarrow> Inr (AList.update ''Extraction Error'' (JStr error) md'))"

subsection \<open>Loading, cleaning, downloading\<close>

text \<open>
  \<^verbatim>\<open>handleImageFile\<close>: the effects of one call and of its callbacks, in the order in
  which they run.
\<close>

definition handleImageFile :: "env \<Rightarrow> File \<Rightarrow> action list" where
  "handleImageFile E file =
     [SetIsProcessing True,
      SetProcessedImage None,
      SetOriginalFileName (file_name file)] @
     (case extractMetadata E file of
        Inl error \<Rightarrow> []
      | Inr exifData \<Rightarrow>
          [SetMetadata (Some exifData),
           ReadAsDataURL file] @
          (case readAsDataURL E file of
             None \<Rightarrow> []
           | Some imageUrl \<Rightarrow>
               [SetOriginalImage (Some imageUrl),
                SetIsProcessing False]))"

text \<open>
  The three callbacks of that chain, each with its own render: the call itself, which runs
  up to the \<^verbatim>\<open>await\<close>; the continuation, run when the promise of
  \<^verbatim>\<open>extractMetadata\<close> has settled; and \<^verbatim>\<open>reader.onload\<close>. A handler that calls
  \<^verbatim>\<open>handleImageFile\<close> issues the effects of the first only; the other two come
  later, and those of several calls come in an order the platform decides.
\<close>

definition handleImageFile_begin :: "File \<Rightarrow> action list" where
  "handleImageFile_begin file =
     [SetIsProcessing True,
      SetProcessedImage None,
      SetOriginalFileName (file_name file)]"

definition handleImageFile_resume :: "env \<Rightarrow> File \<Rightarrow> action list" where
  "handleImageFile_resume E file =
     (case extractMetadata E file of
        Inl error \<Rightarrow> []
      | Inr exifData \<Rightarrow>
          [SetMetadata (Some exifData),
           ReadAsDataURL file])"

definition reader_onload :: "env \<Rightarrow> File \<Rightarrow> action list" where
  "reader_onload E file =
     (case readAsDataURL E file of
        None \<Rightarrow> []
      | Some imageUrl \<Rightarrow>
          [SetOriginalImage (Some imageUrl),
           SetIsProcessing False])"

definition handleCleanMetadata :: "env \<Rightarrow> AppState \<Rightarrow> action list" where
  "handleCleanMetadata E s =
     (case originalImage s of
        None \<Rightarrow> []
      | Some src \<Rightarrow>
          if src = [] then []
          else
            saveToHistory s @
            [SetIsProcessing True,
             ImageSrc src] @
            (case loadImage E src of
               None \<Rightarrow> SetIsProcessing False # showNotification ''Error processing image''
             | Some (width, height) \<Rightarrow>
                 CreateCanvas width height #
                 (if \<not> getContext2d E then []
                  else
                    [DrawImage src,
                     ToBlob ''image/jpeg'' (92 / 100)] @
                    (case toBlob E src ''image/jpeg'' (92 / 100) of
                       None \<Rightarrow> []
                     | Some blob \<Rightarrow>
                         [CreateObjectURL blob,
                          SetProcessedImage (Some (createObjectURL E blob)),
                          SetIsProcessing False] @
                         showNotification ''Metadata removed successfully''))))"

text \<open>
  \<^verbatim>\<open>s.replace(/\.[^/.]+$/, '')\<close>. The pattern matches at a position when a dot
  stands there and one or more characters, none a slash or a dot, follow up to the end of
  the string; \<^verbatim>\<open>replace\<close> with a pattern that is not global takes the leftmost
  position that matches and puts the empty string for the match, which runs to the end.
  The pattern compares characters with two ASCII characters only, so it does the same on
  the UTF-16 code units of the program and on the bytes of \<open>string\<close>.
\<close>

definition matchesExtension :: "string \<Rightarrow> bool" where
  "matchesExtension cs =
     (case cs of
        [] \<Rightarrow> False
      | c # rest \<Rightarrow>
          c = CHR ''.'' \<and> rest \<noteq> [] \<and> list_all (\<lambda>d. d \<noteq> CHR ''/'' \<and> d \<noteq> CHR ''.'') rest)"

fun replaceExtension :: "string \<Rightarrow> string" where
  "replaceExtension [] = []"
| "replaceExtension (c # cs) =
     (if matchesExtension (c # cs) then [] else c # replaceExtension cs)"

definition handleDownload :: "AppState \<Rightarrow> action list" where
  "handleDownload s =
     (case processedImage s of
        None \<Rightarrow> []
      | Some href \<Rightarrow>
          if href = [] then []
          else
            let fileName = replaceExtension (originalFileName s) @ ''_clean.jpg''
            in [LinkClick href fileName])"

definition handleDownloadOriginal :: "AppState \<Rightarrow> action list" where
  "handleDownloadOriginal s =
     (case originalImage s of
        None \<Rightarrow> []
      | Some href \<Rightarrow>
          if href = [] then []
          else [LinkClick href (originalFileName s)])"

subsection \<open>Event handlers\<close>

text \<open>\<^verbatim>\<open>originalImage || processedImage\<close> in a condition.\<close>

definition imagePresent :: "AppState \<Rightarrow> bool" where
  "imagePresent s = (truthy_str (originalImage s) \<or> truthy_str (processedImage s))"

text \<open>\<^verbatim>\<open>t.indexOf(p) !== -1\<close>\<close>

fun indexOf_found :: "string \<Rightarrow> string \<Rightarrow> bool" where
  "indexOf_found p [] = (p = [])"
| "indexOf_found p (c # cs) = (prefix p (c # cs) \<or> indexOf_found p cs)"

text \<open>
  The \<^verbatim>\<open>paste\<close> listener. A clipboard item is its \<^verbatim>\<open>type\<close> and what
  \<^verbatim>\<open>getAsFile()\<close> returns; the argument is \<^verbatim>\<open>e.clipboardData?.items\<close>.
\<close>

definition pasteItem :: "AppState \<Rightarrow> string \<times> File option \<Rightarrow> action list" where
  "pasteItem s item =
     (if indexOf_found ''image'' (fst item) then
        (case snd item of
           None \<Rightarrow> []
         | Some file \<Rightarrow>
             if imagePresent s then
               saveToHistory s @
               handleReset s @
               showNotification ''Image replaced! Use Ctrl+Z to undo'' @
               [SetTimeout (CallHandleImageFile file) 0]
             else handleImageFile_begin file)
      else [])"

definition handlePaste :: "(string \<times> File option) list option \<Rightarrow> AppState \<Rightarrow> action list" where
  "handlePaste items s =
     (case items of
        None \<Rightarrow> []
      | Some its \<Rightarrow> concat (map (pasteItem s) its))"

text \<open>The \<^verbatim>\<open>keydown\<close> listener.\<close>

record KeyboardEvent =
  ctrlKey :: bool
  metaKey :: bool
  key :: string

definition handleKeyDown :: "KeyboardEvent \<Rightarrow> AppState \<Rightarrow> action list" where
  "handleKeyDown e s =
     (if (ctrlKey e \<or> metaKey e) \<and> key e = ''z''
      then PreventDefault # handleUndo s else []) @
     (if (ctrlKey e \<or> metaKey e) \<and> key e = ''y''
      then PreventDefault # handleRedo s else []) @
     (if (ctrlKey e \<or> metaKey e) \<and> key e = ''d''
      then PreventDefault #
           (if imagePresent s
            then saveToHistory s @ handleReset s @ showNotification ''Image deleted''
            else [])
      else [])"

text \<open>
  \<^verbatim>\<open>handleDrop\<close>, the \<^verbatim>\<open>onDrop\<close> of the drop zone, and the \<^verbatim>\<open>onDrop\<close> of the
  root element; the argument is \<^verbatim>\<open>e.dataTransfer.files\<close>.
\<close>

definition handleDrop :: "File list \<Rightarrow> AppState \<Rightarrow> action list" where
  "handleDrop files s =
     [PreventDefault,
      SetIsDragging False] @
     (case files of
        [] \<Rightarrow> []
      | file0 # rest \<Rightarrow>
          if prefix ''image/'' (file_type file0) then
            (if imagePresent s then
               handleReset s @
               [SetTimeout (CallHandleImageFile file0) 0]
             else handleImageFile_begin file0)
          else [])"

definition rootOnDrop :: "File list \<Rightarrow> AppState \<Rightarrow> action list" where
  "rootOnDrop files s =
     [PreventDefault,
      SetIsDragging False] @
     (case files of
        [] \<Rightarrow> []
      | file0 # rest \<Rightarrow>
          if prefix ''image/'' (file_type file0) then
            (if imagePresent s then
               saveToHistory s @
               handleReset s @
               showNotification ''Image replaced! Use Ctrl+Z to undo'' @
               [SetTimeout (CallHandleImageFile file0) 0]
             else handleImageFile_begin file0)
          else [])"

definition handleFileSelect :: "File list option \<Rightarrow> AppState \<Rightarrow> action list" where
  "handleFileSelect files s =
     (case files of
        None \<Rightarrow> []
      | Some [] \<Rightarrow> []
      | Some (file0 # rest) \<Rightarrow> handleImageFile_begin file0)"

text \<open>A timer firing.\<close>

definition fire :: "timer_callback \<Rightarrow> action list" where
  "fire cb =
     (case cb of
        ClearNotification \<Rightarrow> [SetNotification None]
      | CallHandleImageFile file \<Rightarrow> handleImageFile_begin file)"

subsection \<open>Renders and the closure of the listeners\<close>

text \<open>
  The component between two callbacks: the cells as of the latest render, and the cells
  as of the render whose effect registered the \<^verbatim>\<open>paste\<close> and \<^verbatim>\<open>keydown\<close>
  listeners, which is what \<^verbatim>\<open>handlePaste\<close> and \<^verbatim>\<open>handleKeyDown\<close>, and through them
  \<^verbatim>\<open>saveToHistory\<close>, \<^verbatim>\<open>handleUndo\<close> and \<^verbatim>\<open>handleRedo\<close>, read.
\<close>

record World =
  current :: AppState
  listener :: AppState

text \<open>
  The effect runs again after a render in which a dependency is not the same as in the
  render before: \<^verbatim>\<open>originalImage\<close> and \<^verbatim>\<open>processedImage\<close> are compared as
  strings, \<^verbatim>\<open>history\<close> as a reference, and every \<^verbatim>\<open>setHistory\<close> call of the
  component passes an array made in that call.
\<close>

definition is_SetHistory :: "action \<Rightarrow> bool" where
  "is_SetHistory a = (case a of SetHistory h \<Rightarrow> True | _ \<Rightarrow> False)"

definition effect_reruns :: "action list \<Rightarrow> AppState \<Rightarrow> AppState \<Rightarrow> bool" where
  "effect_reruns as s s' =
     (originalImage s' \<noteq> originalImage s \<or>
      processedImage s' \<noteq> processedImage s \<or>
      list_ex is_SetHistory as)"

text \<open>The render after a callback that issued the effects \<open>as\<close>.\<close>

definition commit :: "action list \<Rightarrow> World \<Rightarrow> World" where
  "commit as w =
     (let s' = run as (current w)
      in \<lparr>current = s',
          listener = (if effect_reruns as (current w) s' then s' else listener w)\<rparr>)"

text \<open>
  An event on an element runs the handler of the latest render; a \<^verbatim>\<open>paste\<close> or
  \<^verbatim>\<open>keydown\<close> event on the document runs the registered listener.
\<close>

definition react_event :: "(AppState \<Rightarrow> action list) \<Rightarrow> World \<Rightarrow> World" where
  "react_event handler w = commit (handler (current w)) w"

definition listener_event :: "(AppState \<Rightarrow> action list) \<Rightarrow> World \<Rightarrow> World" where
  "listener_event handler w = commit (handler (listener w)) w"

subsection \<open>Concrete inputs\<close>

text \<open>
  The state of the first render (the arguments of the \<^verbatim>\<open>useState\<close> calls), a file,
  a platform on which every step succeeds, and the states in which that file is loaded
  and then cleaned.
\<close>

definition initialState :: AppState where
  "initialState =
     \<lparr>originalImage = None, originalFileName = [], metadata = None, processedImage = None,
      isDragging = False, isProcessing = False, history = [], futureHistory = [],
      notification = None, showJsonModal = False\<rparr>"

definition example_file :: File where
  "example_file =
     \<lparr>file_name = ''holiday.png'', file_size = 2048, file_type = ''image/png'',
      file_lastModified = 1700000000000\<rparr>"

definition example_env :: env where
  "example_env =
     \<lparr>toFixed2_KB = (\<lambda>n. ''2.00''),
      toLocaleString = (\<lambda>t. ''11/14/2023, 10:13:20 PM''),
      exifr_parse = (\<lambda>f. Inr (Some [(''ihdr'', JObj [(''ImageWidth'', JNum 2)])])),
      exifr_thumbnail = (\<lambda>f. Inr None),
      readAsDataURL = (\<lambda>f. Some ''data:image/png;base64,iVBORw0KGgo=''),
      loadImage = (\<lambda>u. Some (2, 2)),
      getContext2d = True,
      toBlob = (\<lambda>src t q. Some ''JFIF''),
      createObjectURL = (\<lambda>b. ''blob:null/0001'')\<rparr>"

definition example_loaded :: AppState where
  "example_loaded =
     initialState\<lparr>originalImage := Some ''data:image/png;base64,iVBORw0KGgo='',
                  originalFileName := ''holiday.png'',
                  metadata := Some [(''File Info'', JObj [(''File Name'', JStr ''holiday.png'')])]\<rparr>"

definition example_cleaned :: AppState where
  "example_cleaned =
     example_loaded\<lparr>processedImage := Some ''blob:null/0001'',
                     history := [snapshot example_loaded]\<rparr>"

text \<open>
  The cleaned state after \<^verbatim>\<open>Ctrl+Z\<close> (one snapshot on the future stack), a cleaned
  state whose file name has no dot, a platform whose parser rejects, and the key event
  of \<^verbatim>\<open>Ctrl+D\<close>.
\<close>

definition example_undone :: AppState where
  "example_undone = example_loaded\<lparr>futureHistory := [snapshot example_cleaned]\<rparr>"

definition example_named :: AppState where
  "example_named = example_cleaned\<lparr>originalFileName := ''README''\<rparr>"

definition failing_env :: env where
  "failing_env = example_env\<lparr>exifr_parse := (\<lambda>f. Inl ''Error: Unknown file format'')\<rparr>"

definition ctrl_d :: KeyboardEvent where
  "ctrl_d = \<lparr>ctrlKey = True, metaKey = False, key = ''d''\<rparr>"

text \<open>
  A run of the component: the first render; a file selected and loaded; \<^verbatim>\<open>Ctrl+D\<close>;
  a second file selected, its metadata extracted and stored, its
  \<^verbatim>\<open>reader.onload\<close> not run yet (and never run if the read fails). Then the key
  events of \<^verbatim>\<open>Ctrl+Z\<close> and \<^verbatim>\<open>Ctrl+Y\<close>.
\<close>

definition second_file :: File where
  "second_file =
     \<lparr>file_name = ''beach.png'', file_size = 2048, file_type = ''image/png'',
      file_lastModified = 1700000000500\<rparr>"

definition world_initial :: World where
  "world_initial = \<lparr>current = initialState, listener = initialState\<rparr>"

definition world_loaded :: World where
  "world_loaded =
     commit (reader_onload example_env example_file)
       (commit (handleImageFile_resume example_env example_file)
          (react_event (handleFileSelect (Some [example_file])) world_initial))"

definition world_deleted :: World where
  "world_deleted = listener_event (handleKeyDown ctrl_d) world_loaded"

definition world_loading :: World where
  "world_loading =
     commit (handleImageFile_resume example_env second_file)
       (react_event (handleFileSelect (Some [second_file])) world_deleted)"

definition ctrl_z :: KeyboardEvent where
  "ctrl_z = \<lparr>ctrlKey = True, metaKey = False, key = ''z''\<rparr>"

definition ctrl_y :: KeyboardEvent where
  "ctrl_y = \<lparr>ctrlKey = True, metaKey = False, key = ''y''\<rparr>"

section \<open>Properties of the history\<close>

lemma run_Nil: "run [] s = s"
  by (simp add: run_def)

lemma run_Cons: "run (a # as) s = run as (apply_action a s)"
  by (simp add: run_def)

lemma run_append: "run (as @ bs) s = run bs (run as s)"
  by (simp add: run_def)

lemma exec_handleUndo:
  assumes "history s \<noteq> []"
  shows "exec handleUndo s =
    s\<lparr>originalImage := originalImage (last (history s)),
      originalFileName := originalFileName (last (history s)),
      metadata := metadata (last (history s)),
      processedImage := processedImage (last (history s)),
      history := butlast (history s),
      futureHistory := snapshot s # futureHistory s\<rparr>"
  using assms by (simp add: exec_def handleUndo_def pop_def run_Cons run_Nil)

lemma exec_handleRedo:
  assumes "futureHistory s \<noteq> []"
  shows "exec handleRedo s =
    s\<lparr>originalImage := originalImage (hd (futureHistory s)),
      originalFileName := originalFileName (hd (futureHistory s)),
      metadata := metadata (hd (futureHistory s)),
      processedImage := processedImage (hd (futureHistory s)),
      history := history s @ [snapshot s],
      futureHistory := tl (futureHistory s)\<rparr>"
  using assms
  by (cases "futureHistory s") (simp_all add: exec_def handleRedo_def shift_def run_Cons run_Nil)

lemma snapshot_restored:
  "snapshot (s\<lparr>originalImage := originalImage p, originalFileName := originalFileName p,
       metadata := metadata p, processedImage := processedImage p\<rparr>) = (p :: HistoryState)"
  by (simp add: snapshot_def)

subsection \<open>With the closure of the current render\<close>

text \<open>
  What the two handlers do when their closure is that of the render whose state they
  change. In a state whose past stack is not empty, \<^verbatim>\<open>handleUndo\<close> takes the last
  element off the past stack, puts a snapshot of the four cells in front of the future
  stack, and sets the four cells to the fields of the element taken off;
  \<^verbatim>\<open>handleRedo\<close> does the same with the first element of the future stack and the end
  of the past stack. One after the other they give back the state they started from.
\<close>

lemma fresh_handleUndo_handleRedo_step:
  "(history s = past @ [p] \<longrightarrow>
      history (exec handleUndo s) = past \<and>
      futureHistory (exec handleUndo s) = snapshot s # futureHistory s \<and>
      snapshot (exec handleUndo s) = p) \<and>
   (futureHistory s = n # future \<longrightarrow>
      futureHistory (exec handleRedo s) = future \<and>
      history (exec handleRedo s) = history s @ [snapshot s] \<and>
      snapshot (exec handleRedo s) = n)"
  by (simp add: exec_handleUndo exec_handleRedo snapshot_restored) (simp add: snapshot_def)

lemma fresh_handleUndo_then_handleRedo:
  assumes "history s \<noteq> []"
  shows "exec handleRedo (exec handleUndo s) = s"
proof -
  let ?u = "exec handleUndo s"
  have fut: "futureHistory ?u = snapshot s # futureHistory s"
    and past: "history ?u = butlast (history s)"
    and cur: "snapshot ?u = last (history s)"
    using assms by (simp_all add: exec_handleUndo snapshot_def)
  have "futureHistory ?u \<noteq> []"
    using fut by simp
  then have "exec handleRedo ?u =
    ?u\<lparr>originalImage := originalImage (snapshot s),
      originalFileName := originalFileName (snapshot s),
      metadata := metadata (snapshot s),
      processedImage := processedImage (snapshot s),
      history := butlast (history s) @ [last (history s)],
      futureHistory := futureHistory s\<rparr>"
    by (simp add: exec_handleRedo fut past cur)
  also have "\<dots> = s"
    using assms by (simp add: exec_handleUndo snapshot_def)
  finally show ?thesis .
qed

subsection \<open>With the closure the listeners have\<close>

text \<open>
  An event on an element always runs as \<open>exec\<close> does, and so does an event of a
  listener in a world in which the listeners are those of the latest render. After a
  render in which the effect ran again they are.
\<close>

lemma current_react_event: "current (react_event h w) = exec h (current w)"
  by (simp add: react_event_def commit_def exec_def Let_def)

lemma current_listener_event:
  "listener w = current w \<Longrightarrow> current (listener_event h w) = exec h (current w)"
  by (simp add: listener_event_def commit_def exec_def Let_def)

lemma listener_commit:
  "listener (commit as w) =
     (if effect_reruns as (current w) (run as (current w))
      then current (commit as w) else listener w)"
  by (simp add: commit_def Let_def)

text \<open>
  In general the snapshot that \<^verbatim>\<open>handleUndo\<close> and \<^verbatim>\<open>handleRedo\<close> push is made of
  the cells of the closure \<open>c\<close>, whatever the cells \<open>s\<close> are now.
\<close>

lemma run_handleUndo:
  assumes "history c \<noteq> []"
  shows "futureHistory (run (handleUndo c) s) = snapshot c # futureHistory c \<and>
         history (run (handleUndo c) s) = butlast (history c) \<and>
         snapshot (run (handleUndo c) s) = last (history c)"
  using assms
  by (simp add: handleUndo_def pop_def run_Cons run_Nil snapshot_def)

lemma run_handleRedo:
  assumes "futureHistory c \<noteq> []"
  shows "history (run (handleRedo c) s) = history c @ [snapshot c] \<and>
         futureHistory (run (handleRedo c) s) = tl (futureHistory c) \<and>
         snapshot (run (handleRedo c) s) = hd (futureHistory c)"
  using assms
  by (cases "futureHistory c")
    (simp_all add: handleRedo_def shift_def run_Cons run_Nil snapshot_def)

text \<open>
  C3. The claim is that \<^verbatim>\<open>handleUndo\<close>, in every state whose past stack is not empty,
  puts a snapshot of the current four cells in front of the future stack. Evaluated in
  the world reached by loading a file, pressing \<^verbatim>\<open>Ctrl+D\<close>, selecting a second file
  and waiting until its metadata is stored (the data URL is not stored yet): the past
  stack holds one snapshot, the current file name is that of the second file and the
  current metadata is set, and \<^verbatim>\<open>Ctrl+Z\<close> puts on the future stack a snapshot with an
  empty file name and no metadata, which is not the snapshot of the current four cells.
  The listener is that of the render after \<^verbatim>\<open>Ctrl+D\<close>, because the file name and the
  metadata are not in the dependency list of the effect that registers it.
\<close>

theorem handleUndo_pushes_stale_snapshot:
  "history (current world_loading) = [snapshot (current world_loaded)] \<and>
   originalFileName (current world_loading) = ''beach.png'' \<and>
   metadata (current world_loading) \<noteq> None \<and>
   futureHistory (current world_loading) = [] \<and>
   futureHistory (current (listener_event (handleKeyDown ctrl_z) world_loading)) =
     [\<lparr>originalImage = None, originalFileName = [], metadata = None, processedImage = None\<rparr>] \<and>
   futureHistory (current (listener_event (handleKeyDown ctrl_z) world_loading)) \<noteq>
     snapshot (current world_loading) # futureHistory (current world_loading)"
  by (simp add: world_loading_def world_deleted_def world_loaded_def world_initial_def
      commit_def react_event_def listener_event_def effect_reruns_def is_SetHistory_def run_def
      handleFileSelect_def handleImageFile_begin_def handleImageFile_resume_def
      reader_onload_def extractMetadata_def tryBlock_def segments_def copySegment_def
      getProp_def fileInfo_def example_env_def example_file_def second_file_def
      handleKeyDown_def ctrl_d_def ctrl_z_def handleUndo_def pop_def saveToHistory_def
      handleReset_def showNotification_def imagePresent_def initialState_def snapshot_def
      Let_def)

text \<open>
  C4. The claim is that \<^verbatim>\<open>handleUndo\<close> followed by \<^verbatim>\<open>handleRedo\<close> gives back the
  four cells and both stacks. Evaluated in the same world: after \<^verbatim>\<open>Ctrl+Z\<close> and
  \<^verbatim>\<open>Ctrl+Y\<close> both stacks are as before, but the file name is empty and the metadata
  is \<^verbatim>\<open>null\<close>, where before the undo they were those of the second file.
\<close>

theorem handleUndo_handleRedo_stale_roundtrip:
  "history (current world_loading) \<noteq> [] \<and>
   originalFileName (current world_loading) = ''beach.png'' \<and>
   metadata (current world_loading) \<noteq> None \<and>
   originalFileName (current (listener_event (handleKeyDown ctrl_y)
      (listener_event (handleKeyDown ctrl_z) world_loading))) = [] \<and>
   metadata (current (listener_event (handleKeyDown ctrl_y)
      (listener_event (handleKeyDown ctrl_z) world_loading))) = None \<and>
   history (current (listener_event (handleKeyDown ctrl_y)
      (listener_event (handleKeyDown ctrl_z) world_loading))) =
     history (current world_loading) \<and>
   futureHistory (current (listener_event (handleKeyDown ctrl_y)
      (listener_event (handleKeyDown ctrl_z) world_loading))) =
     futureHistory (current world_loading)"
  by (simp add: world_loading_def world_deleted_def world_loaded_def world_initial_def
      commit_def react_event_def listener_event_def effect_reruns_def is_SetHistory_def run_def
      handleFileSelect_def handleImageFile_begin_def handleImageFile_resume_def
      reader_onload_def extractMetadata_def tryBlock_def segments_def copySegment_def
      getProp_def fileInfo_def example_env_def example_file_def second_file_def
      handleKeyDown_def ctrl_d_def ctrl_z_def ctrl_y_def handleUndo_def handleRedo_def pop_def
      shift_def saveToHistory_def handleReset_def showNotification_def imagePresent_def
      initialState_def snapshot_def Let_def)

text \<open>
  C9. \<^verbatim>\<open>handleUndo\<close> in a state whose past stack is empty, and \<^verbatim>\<open>handleRedo\<close> in
  a state whose future stack is empty, issue no effect at all and leave the whole state,
  the four cells and both stacks included, as it was.
\<close>

theorem handleUndo_handleRedo_empty:
  "(history s = [] \<longrightarrow> handleUndo s = [] \<and> exec handleUndo s = s) \<and>
   (futureHistory s = [] \<longrightarrow> handleRedo s = [] \<and> exec handleRedo s = s)"
  by (simp add: exec_def handleUndo_def handleRedo_def run_Nil)

theorem handleUndo_handleRedo_empty_witness:
  "history initialState = [] \<and> futureHistory initialState = [] \<and>
   handleUndo initialState = [] \<and> exec handleUndo initialState = initialState \<and>
   handleRedo initialState = [] \<and> exec handleRedo initialState = initialState"
  using handleUndo_handleRedo_empty [of initialState]
  by (simp add: initialState_def)

section \<open>Properties of metadata extraction\<close>

lemma map_of_copySegment:
  "snd kl \<noteq> k \<Longrightarrow> map_of (copySegment all kl md) k = map_of md k"
  by (simp add: copySegment_def update_conv)

lemma map_of_fold_copySegment:
  "\<forall>kl \<in> set kls. snd kl \<noteq> k \<Longrightarrow> map_of (fold (copySegment all) kls md) k = map_of md k"
  by (induction kls arbitrary: md) (simp_all add: map_of_copySegment)

lemma fold_segments_File_Info:
  "map_of (fold (copySegment all) segments md) ''File Info'' = map_of md ''File Info''"
proof (rule map_of_fold_copySegment)
  show "\<forall>kl \<in> set segments. snd kl \<noteq> ''File Info''"
    by (simp add: segments_def)
qed

lemma tryBlock_File_Info:
  "map_of (fst (tryBlock E f md)) ''File Info'' = map_of md ''File Info''"
proof (cases "exifr_parse E f")
  case (Inl e)
  then show ?thesis by (simp add: tryBlock_def)
next
  case (Inr allMetadata)
  define md1 where "md1 = (case allMetadata of None \<Rightarrow> md
                           | Some all \<Rightarrow> fold (copySegment all) segments md)"
  have md1: "map_of md1 ''File Info'' = map_of md ''File Info''"
    by (cases allMetadata) (simp_all add: md1_def fold_segments_File_Info)
  show ?thesis
  proof (cases "exifr_thumbnail E f")
    case (Inl e)
    then show ?thesis
      using Inr md1 by (simp add: tryBlock_def md1_def)
  next
    case thumb: (Inr t)
    then show ?thesis
      using Inr md1 by (cases t) (simp_all add: tryBlock_def md1_def update_conv)
  qed
qed

lemma tryBlock_throws:
  "snd (tryBlock E f md) =
     (case exifr_parse E f of
        Inl e \<Rightarrow> Some e
      | Inr r \<Rightarrow> (case exifr_thumbnail E f of Inl e \<Rightarrow> Some e | Inr t \<Rightarrow> None))"
  by (simp add: tryBlock_def Let_def split: sum.splits option.splits)

lemma extractMetadata_cases:
  "extractMetadata E f =
     (case snd (tryBlock E f [(''File Info'', fileInfo E f)]) of
        None \<Rightarrow> Inr (fst (tryBlock E f [(''File Info'', fileInfo E f)]))
      | Some e \<Rightarrow> Inr (AList.update ''Extraction Error'' (JStr e)
                         (fst (tryBlock E f [(''File Info'', fileInfo E f)]))))"
  by (simp add: extractMetadata_def split: prod.splits option.splits)

text \<open>
  C6. For every file and every behaviour of the parser, \<^verbatim>\<open>extractMetadata\<close> returns an
  object (no exception leaves it). The object has the key \<^verbatim>\<open>'File Info'\<close>, whose value
  is built from the file's name, size, type and last-modified time. When
  \<^verbatim>\<open>exifr.parse\<close> throws, or \<^verbatim>\<open>exifr.thumbnail\<close> throws after it, the object also
  has the key \<^verbatim>\<open>'Extraction Error'\<close> with the error as a string.
\<close>

theorem extractMetadata_returns:
  "\<exists>md. extractMetadata E f = Inr md \<and>
      map_of md ''File Info'' =
        Some (JObj [(''File Name'', JStr (file_name f)),
                    (''File Size'', JStr (toFixed2_KB E (file_size f) @ '' KB'')),
                    (''File Type'', JStr (file_type f)),
                    (''Last Modified'', JStr (toLocaleString E (file_lastModified f)))]) \<and>
      (exifr_parse E f = Inl e \<or>
       (\<exists>r. exifr_parse E f = Inr r) \<and> exifr_thumbnail E f = Inl e
         \<longrightarrow> map_of md ''Extraction Error'' = Some (JStr e))"
proof -
  let ?init = "[(''File Info'', fileInfo E f)]"
  let ?out = "fst (tryBlock E f ?init)"
  let ?thrown = "exifr_parse E f = Inl e \<or>
       (\<exists>r. exifr_parse E f = Inr r) \<and> exifr_thumbnail E f = Inl e"
  have info: "map_of ?out ''File Info'' = Some (fileInfo E f)"
    by (simp add: tryBlock_File_Info)
  have thrown: "snd (tryBlock E f ?init) = Some e" if ?thrown
    using that by (auto simp: tryBlock_throws)
  show ?thesis
  proof (cases "snd (tryBlock E f ?init)")
    case None
    then have "extractMetadata E f = Inr ?out"
      by (simp add: extractMetadata_cases)
    moreover have "\<not> ?thrown"
      using None thrown by auto
    ultimately show ?thesis
      using info unfolding fileInfo_def by blast
  next
    case (Some err)
    then have ret: "extractMetadata E f = Inr (AList.update ''Extraction Error'' (JStr err) ?out)"
      by (simp add: extractMetadata_cases)
    have "map_of (AList.update ''Extraction Error'' (JStr err) ?out) ''File Info'' =
        Some (fileInfo E f)"
      using info by (simp add: update_conv)
    moreover have "map_of (AList.update ''Extraction Error'' (JStr err) ?out)
        ''Extraction Error'' = Some (JStr e)" if ?thrown
      using thrown [OF that] Some by (simp add: update_conv)
    ultimately show ?thesis
      using ret unfolding fileInfo_def by blast
  qed
qed

theorem extractMetadata_returns_witness:
  "exifr_parse failing_env example_file = Inl ''Error: Unknown file format'' \<and>
   (\<exists>md. extractMetadata failing_env example_file = Inr md \<and>
      map_of md ''File Info'' =
        Some (JObj [(''File Name'', JStr ''holiday.png''),
                 (''File Size'', JStr ''2.00 KB''),
                 (''File Type'', JStr ''image/png''),
                 (''Last Modified'', JStr ''11/14/2023, 10:13:20 PM'')]) \<and>
      map_of md ''Extraction Error'' = Some (JStr ''Error: Unknown file format''))"
  using extractMetadata_returns [of failing_env example_file "''Error: Unknown file format''"]
  by (simp add: failing_env_def example_env_def example_file_def)

section \<open>Properties of loading, cleaning and downloading\<close>

lemma extractMetadata_Inr: "\<exists>md. extractMetadata E f = Inr md"
  by (simp add: extractMetadata_cases split: option.splits)

text \<open>The chain of one call is its three callbacks one after the other.\<close>

lemma handleImageFile_chain:
  "handleImageFile E f =
     handleImageFile_begin f @ handleImageFile_resume E f @ reader_onload E f"
  using extractMetadata_Inr [of E f]
  by (auto simp: handleImageFile_def handleImageFile_begin_def handleImageFile_resume_def
      reader_onload_def split: option.splits)



lemma replaceExtension_strip:
  "ext \<noteq> [] \<Longrightarrow> CHR ''.'' \<notin> set ext \<Longrightarrow> CHR ''/'' \<notin> set ext \<Longrightarrow>
   replaceExtension (base @ ''.'' @ ext) = base"
proof (induction base)
  case Nil
  then show ?case
    by (auto simp: matchesExtension_def list_all_iff)
next
  case (Cons c base)
  have "\<not> matchesExtension (c # base @ ''.'' @ ext)"
    by (simp add: matchesExtension_def list_all_iff)
  with Cons show ?case by simp
qed

lemma replaceExtension_cases:
  "replaceExtension n = n \<or>
   (\<exists>base ext. n = base @ ''.'' @ ext \<and> ext \<noteq> [] \<and>
      CHR ''.'' \<notin> set ext \<and> CHR ''/'' \<notin> set ext)"
proof (induction n)
  case Nil
  then show ?case by simp
next
  case (Cons c cs)
  show ?case
  proof (cases "matchesExtension (c # cs)")
    case True
    then have "c # cs = [] @ ''.'' @ cs \<and> cs \<noteq> [] \<and>
        CHR ''.'' \<notin> set cs \<and> CHR ''/'' \<notin> set cs"
      by (auto simp: matchesExtension_def list_all_iff)
    then show ?thesis by blast
  next
    case False
    from Cons show ?thesis
    proof
      assume "replaceExtension cs = cs"
      with False show ?thesis by simp
    next
      assume "\<exists>base ext. cs = base @ ''.'' @ ext \<and> ext \<noteq> [] \<and>
          CHR ''.'' \<notin> set ext \<and> CHR ''/'' \<notin> set ext"
      then obtain base ext where "cs = base @ ''.'' @ ext" "ext \<noteq> []"
        "CHR ''.'' \<notin> set ext" "CHR ''/'' \<notin> set ext" by blast
      then have "c # cs = (c # base) @ ''.'' @ ext \<and> ext \<noteq> [] \<and>
          CHR ''.'' \<notin> set ext \<and> CHR ''/'' \<notin> set ext"
        by simp
      then show ?thesis by blast
    qed
  qed
qed

text \<open>
  C10. Every \<^verbatim>\<open>toBlob\<close> call of \<^verbatim>\<open>handleCleanMetadata\<close> asks for
  \<^verbatim>\<open>'image/jpeg'\<close> at quality 0.92, and the URL it stores as the processed image is the
  object URL of the blob encoded so, whatever the state and the platform (so whatever the
  format of the input). When there is a processed image, \<^verbatim>\<open>handleDownload\<close> downloads it
  under this name: if the original file name is \<open>base.ext\<close>, where \<open>ext\<close> is not empty and
  has neither a dot nor a slash, the name is \<open>base_clean.jpg\<close>; if the original file name
  has no such extension, \<open>_clean.jpg\<close> is appended to the whole name.
\<close>

theorem jpeg_export_and_download_name:
  "(ToBlob t q \<in> set (handleCleanMetadata E s) \<longrightarrow> t = ''image/jpeg'' \<and> q = 92 / 100) \<and>
   (SetProcessedImage (Some url) \<in> set (handleCleanMetadata E s) \<longrightarrow>
      (\<exists>src blob. originalImage s = Some src \<and>
         toBlob E src ''image/jpeg'' (92 / 100) = Some blob \<and> url = createObjectURL E blob)) \<and>
   (processedImage s = Some href \<and> href \<noteq> [] \<longrightarrow>
      (originalFileName s = base @ ''.'' @ ext \<and> ext \<noteq> [] \<and>
       CHR ''.'' \<notin> set ext \<and> CHR ''/'' \<notin> set ext \<longrightarrow>
         handleDownload s = [LinkClick href (base @ ''_clean.jpg'')]) \<and>
      ((\<forall>b e. originalFileName s = b @ ''.'' @ e \<longrightarrow>
           e = [] \<or> CHR ''.'' \<in> set e \<or> CHR ''/'' \<in> set e) \<longrightarrow>
         handleDownload s = [LinkClick href (originalFileName s @ ''_clean.jpg'')]))"
proof (intro conjI impI)
  assume "ToBlob t q \<in> set (handleCleanMetadata E s)"
  then show "t = ''image/jpeg''" and "q = 92 / 100"
    by (auto simp: handleCleanMetadata_def saveToHistory_def showNotification_def
        split: option.splits if_splits prod.splits)
next
  assume "SetProcessedImage (Some url) \<in> set (handleCleanMetadata E s)"
  then show "\<exists>src blob. originalImage s = Some src \<and>
         toBlob E src ''image/jpeg'' (92 / 100) = Some blob \<and> url = createObjectURL E blob"
    by (cases "originalImage s")
      (auto simp: handleCleanMetadata_def saveToHistory_def showNotification_def
        split: option.splits if_splits prod.splits)
next
  assume p: "processedImage s = Some href \<and> href \<noteq> []"
    and n: "originalFileName s = base @ ''.'' @ ext \<and> ext \<noteq> [] \<and>
       CHR ''.'' \<notin> set ext \<and> CHR ''/'' \<notin> set ext"
  then have "replaceExtension (originalFileName s) = base"
    using replaceExtension_strip [of ext base] by simp
  with p show "handleDownload s = [LinkClick href (base @ ''_clean.jpg'')]"
    by (simp add: handleDownload_def)
next
  assume p: "processedImage s = Some href \<and> href \<noteq> []"
    and n: "\<forall>b e. originalFileName s = b @ ''.'' @ e \<longrightarrow>
           e = [] \<or> CHR ''.'' \<in> set e \<or> CHR ''/'' \<in> set e"
  have "replaceExtension (originalFileName s) = originalFileName s"
    using replaceExtension_cases [of "originalFileName s"] n by blast
  with p show "handleDownload s = [LinkClick href (originalFileName s @ ''_clean.jpg'')]"
    by (simp add: handleDownload_def)
qed

theorem jpeg_export_and_download_name_witness:
  "ToBlob ''image/jpeg'' (92 / 100) \<in> set (handleCleanMetadata example_env example_loaded) \<and>
   SetProcessedImage (Some ''blob:null/0001'')
     \<in> set (handleCleanMetadata example_env example_loaded) \<and>
   toBlob example_env ''data:image/png;base64,iVBORw0KGgo='' ''image/jpeg'' (92 / 100) =
     Some ''JFIF'' \<and>
   processedImage example_cleaned = Some ''blob:null/0001'' \<and>
   originalFileName example_cleaned = ''holiday'' @ ''.'' @ ''png'' \<and>
   handleDownload example_cleaned = [LinkClick ''blob:null/0001'' ''holiday_clean.jpg''] \<and>
   originalFileName example_named = ''README'' \<and>
   handleDownload example_named = [LinkClick ''blob:null/0001'' ''README_clean.jpg'']"
proof -
  have nodot: "\<forall>b e. originalFileName example_named = b @ ''.'' @ e \<longrightarrow>
           e = [] \<or> CHR ''.'' \<in> set e \<or> CHR ''/'' \<in> set e"
  proof (intro allI impI)
    fix b e
    assume "originalFileName example_named = b @ ''.'' @ e"
    then have "CHR ''.'' \<in> set (originalFileName example_named)"
      by simp
    then show "e = [] \<or> CHR ''.'' \<in> set e \<or> CHR ''/'' \<in> set e"
      by (simp add: example_named_def)
  qed
  have a: "ToBlob ''image/jpeg'' (92 / 100) \<in> set (handleCleanMetadata example_env example_loaded)"
    and b: "SetProcessedImage (Some ''blob:null/0001'')
      \<in> set (handleCleanMetadata example_env example_loaded)"
    by (simp_all add: handleCleanMetadata_def example_env_def example_loaded_def
      initialState_def saveToHistory_def showNotification_def)
  show ?thesis
    using nodot a b
      jpeg_export_and_download_name [of "''image/jpeg''" "92 / 100" example_env example_cleaned
        "''blob:null/0001''" "''blob:null/0001''" "''holiday''" "''png''"]
      jpeg_export_and_download_name [of "''image/jpeg''" "92 / 100" example_env example_named
        "''blob:null/0001''" "''blob:null/0001''" "''holiday''" "''png''"]
    by (simp add: example_named_def example_cleaned_def example_loaded_def initialState_def
        example_env_def)
qed

section \<open>Which handlers save a snapshot\<close>

lemma exec_saveToHistory:
  "exec saveToHistory s = s\<lparr>history := history s @ [snapshot s], futureHistory := []\<rparr>"
  by (simp add: exec_def saveToHistory_def run_Cons run_Nil)

lemma stacks_run_handleCleanMetadata:
  "handleCleanMetadata E s \<noteq> [] \<Longrightarrow>
   history (run (handleCleanMetadata E s) s') = history s @ [snapshot s] \<and>
   futureHistory (run (handleCleanMetadata E s) s') = []"
  by (auto simp: handleCleanMetadata_def run_def saveToHistory_def showNotification_def
      split: option.splits if_splits prod.splits)

lemma stacks_run_pasteItem:
  assumes "imagePresent s"
  shows "history (run (pasteItem s item) s') =
           (if indexOf_found ''image'' (fst item) \<and> snd item \<noteq> None
            then history s @ [snapshot s] else history s') \<and>
         futureHistory (run (pasteItem s item) s') =
           (if indexOf_found ''image'' (fst item) \<and> snd item \<noteq> None
            then [] else futureHistory s')"
  using assms
  by (cases "snd item")
    (simp_all add: pasteItem_def run_def saveToHistory_def handleReset_def showNotification_def)

lemma stacks_run_paste_items:
  assumes "imagePresent s"
  shows "history (run (concat (map (pasteItem s) its)) s') =
           (if \<exists>item \<in> set its. indexOf_found ''image'' (fst item) \<and> snd item \<noteq> None
            then history s @ [snapshot s] else history s') \<and>
         futureHistory (run (concat (map (pasteItem s) its)) s') =
           (if \<exists>item \<in> set its. indexOf_found ''image'' (fst item) \<and> snd item \<noteq> None
            then [] else futureHistory s')"
proof (induction its arbitrary: s')
  case Nil
  then show ?case by (simp add: run_Nil)
next
  case (Cons item its)
  have step: "run (concat (map (pasteItem s) (item # its))) s' =
      run (concat (map (pasteItem s) its)) (run (pasteItem s item) s')"
    by (simp add: run_append)
  show ?case
    unfolding step
    using stacks_run_pasteItem [OF assms, of item s'] Cons [of "run (pasteItem s item) s'"]
    by auto
qed

lemma stacks_ctrl_d:
  assumes "imagePresent s" "ctrlKey e \<or> metaKey e" "key e = ''d''"
  shows "history (exec (handleKeyDown e) s) = history s @ [snapshot s] \<and>
         futureHistory (exec (handleKeyDown e) s) = []"
  using assms
  by (simp add: exec_def handleKeyDown_def run_def saveToHistory_def handleReset_def
      showNotification_def)

lemma stacks_rootOnDrop:
  assumes "imagePresent s" "prefix ''image/'' (file_type f)"
  shows "history (exec (rootOnDrop (f # rest)) s) = history s @ [snapshot s] \<and>
         futureHistory (exec (rootOnDrop (f # rest)) s) = []"
  using assms
  by (simp add: exec_def rootOnDrop_def run_def saveToHistory_def handleReset_def
      showNotification_def)

text \<open>
  C8. \<^verbatim>\<open>saveToHistory\<close> leaves the future stack empty, and so does every handler that
  calls it: \<^verbatim>\<open>handleCleanMetadata\<close> whenever it does anything, and, with an image
  present, the drop handler of the root element on an image file, the paste listener on
  a clipboard with an image item that has a file, and the key listener on
  \<^verbatim>\<open>Ctrl+D\<close> or \<^verbatim>\<open>Meta+D\<close>.
\<close>

theorem saveToHistory_empties_future:
  "futureHistory (exec saveToHistory s) = [] \<and>
   (handleCleanMetadata E s \<noteq> [] \<longrightarrow> futureHistory (exec (handleCleanMetadata E) s) = []) \<and>
   (imagePresent s \<and> prefix ''image/'' (file_type f) \<longrightarrow>
      futureHistory (exec (rootOnDrop (f # rest)) s) = []) \<and>
   (imagePresent s \<and>
    (\<exists>item \<in> set its. indexOf_found ''image'' (fst item) \<and> snd item \<noteq> None) \<longrightarrow>
      futureHistory (exec (handlePaste (Some its)) s) = []) \<and>
   (imagePresent s \<and> (ctrlKey e \<or> metaKey e) \<and> key e = ''d'' \<longrightarrow>
      futureHistory (exec (handleKeyDown e) s) = [])"
  using stacks_run_handleCleanMetadata [of E s s] stacks_rootOnDrop [of s f rest]
    stacks_run_paste_items [of s its s] stacks_ctrl_d [of s e]
  by (simp add: exec_saveToHistory) (simp add: exec_def handlePaste_def)

theorem saveToHistory_empties_future_witness:
  "futureHistory example_undone \<noteq> [] \<and>
   futureHistory (exec saveToHistory example_undone) = [] \<and>
   handleCleanMetadata example_env example_undone \<noteq> [] \<and>
   futureHistory (exec (handleCleanMetadata example_env) example_undone) = [] \<and>
   imagePresent example_undone \<and> prefix ''image/'' (file_type example_file) \<and>
   futureHistory (exec (rootOnDrop [example_file]) example_undone) = [] \<and>
   indexOf_found ''image'' ''image/png'' \<and>
   futureHistory (exec (handlePaste (Some [(''image/png'', Some example_file)]))
     example_undone) = [] \<and>
   futureHistory (exec (handleKeyDown ctrl_d) example_undone) = []"
  using saveToHistory_empties_future [of example_undone example_env example_file "[]"
      "[(''image/png'', Some example_file)]" ctrl_d]
  by (simp add: example_undone_def example_loaded_def initialState_def imagePresent_def
      example_file_def ctrl_d_def handleCleanMetadata_def saveToHistory_def)

text \<open>
  C5. Every snapshot on the past stack or on the future stack is the record of its four
  fields \<^verbatim>\<open>originalImage\<close> (the image data URL), \<^verbatim>\<open>originalFileName\<close> (the file
  name), \<^verbatim>\<open>metadata\<close> (the metadata object) and \<^verbatim>\<open>processedImage\<close> (the processed
  image URL), and has no other component. The snapshots that \<^verbatim>\<open>saveToHistory\<close>,
  \<^verbatim>\<open>handleUndo\<close> and \<^verbatim>\<open>handleRedo\<close> put on a stack are built from the four cells of
  these names.
\<close>

theorem snapshot_four_fields:
  "(\<forall>h \<in> set (history s) \<union> set (futureHistory s).
      h = \<lparr>originalImage = originalImage h, originalFileName = originalFileName h,
           metadata = metadata h, processedImage = processedImage h\<rparr>) \<and>
   last (history (exec saveToHistory s)) =
     \<lparr>originalImage = originalImage s, originalFileName = originalFileName s,
      metadata = metadata s, processedImage = processedImage s\<rparr> \<and>
   (history s \<noteq> [] \<longrightarrow>
      hd (futureHistory (exec handleUndo s)) =
        \<lparr>originalImage = originalImage s, originalFileName = originalFileName s,
         metadata = metadata s, processedImage = processedImage s\<rparr>) \<and>
   (futureHistory s \<noteq> [] \<longrightarrow>
      last (history (exec handleRedo s)) =
        \<lparr>originalImage = originalImage s, originalFileName = originalFileName s,
         metadata = metadata s, processedImage = processedImage s\<rparr>)"
  by (simp add: exec_saveToHistory exec_handleUndo exec_handleRedo snapshot_def)

theorem snapshot_four_fields_witness:
  "set (history example_cleaned) \<union> set (futureHistory example_cleaned) =
     {\<lparr>originalImage = Some ''data:image/png;base64,iVBORw0KGgo='',
       originalFileName = ''holiday.png'',
       metadata = Some [(''File Info'', JObj [(''File Name'', JStr ''holiday.png'')])],
       processedImage = None\<rparr>} \<and>
   history example_cleaned \<noteq> [] \<and>
   hd (futureHistory (exec handleUndo example_cleaned)) =
     \<lparr>originalImage = Some ''data:image/png;base64,iVBORw0KGgo='',
      originalFileName = ''holiday.png'',
      metadata = Some [(''File Info'', JObj [(''File Name'', JStr ''holiday.png'')])],
      processedImage = Some ''blob:null/0001''\<rparr> \<and>
   futureHistory example_undone \<noteq> [] \<and>
   last (history (exec handleRedo example_undone)) =
     \<lparr>originalImage = Some ''data:image/png;base64,iVBORw0KGgo='',
      originalFileName = ''holiday.png'',
      metadata = Some [(''File Info'', JObj [(''File Name'', JStr ''holiday.png'')])],
      processedImage = None\<rparr>"
  using snapshot_four_fields [of example_cleaned] snapshot_four_fields [of example_undone]
  by (simp add: example_cleaned_def example_undone_def example_loaded_def initialState_def
      snapshot_def)

text \<open>
  C2. The claim is that every action that replaces or deletes the loaded image pushes a
  snapshot of the state before it. Evaluated in the state in which an image is loaded:
  \<^verbatim>\<open>handleReset\<close>, which is the whole \<^verbatim>\<open>onClick\<close> of the close button and of
  ``Process Another'', clears the loaded image and leaves the past stack as it was, so
  the image it removes cannot be brought back by undo; \<^verbatim>\<open>Ctrl+D\<close>, which deletes in
  the same way, does push the snapshot. The same holds of \<^verbatim>\<open>handleDrop\<close> against the
  drop handler of the root element; \<^verbatim>\<open>handleDrop\<close>, though, is the handler of the
  drop zone, which is on the page only while no image is present, so that its branch for
  a present image is not run from the page, while the buttons are there whenever an
  image is.
\<close>

theorem handleReset_saves_no_snapshot:
  "imagePresent example_loaded \<and>
   snapshot (exec handleReset example_loaded) \<noteq> snapshot example_loaded \<and>
   history (exec handleReset example_loaded) = history example_loaded \<and>
   prefix ''image/'' (file_type example_file) \<and>
   snapshot (exec (handleDrop [example_file]) example_loaded)
     \<noteq> snapshot example_loaded \<and>
   history (exec (handleDrop [example_file]) example_loaded)
     = history example_loaded \<and>
   history (exec (handleKeyDown ctrl_d) example_loaded)
     = history example_loaded @ [snapshot example_loaded] \<and>
   history (exec (rootOnDrop [example_file]) example_loaded)
     = history example_loaded @ [snapshot example_loaded]"
  by (simp add: imagePresent_def example_loaded_def initialState_def example_file_def
      exec_def run_def handleReset_def handleDrop_def handleKeyDown_def rootOnDrop_def
      saveToHistory_def showNotification_def snapshot_def ctrl_d_def)

end
